theory Spec2Isabelle
  imports Complex_Main
begin

section \<open>The select-job engine of the jobs service\<close>

text \<open>
  A shallow embedding of \<^verbatim>\<open>jobs-service.ts\<close> (class \<^verbatim>\<open>JobsService\<close>) over
  the database schema of \<^verbatim>\<open>job.esdl\<close> and the initial migration.

  The database is an explicit state: one table per object type that the service touches.
  A multi link is a set of object ids, kept as a list of ids; it is read through
  \<open>set\<close>, \<open>+=\<close> adds the ids that are not yet present and \<open>-=\<close> filters ids out.
  A database transaction is a function from the state to either an error or the new
  state with a result; \<open>transaction\<close> commits the new state or keeps the old one.
\<close>

subsection \<open>Schema\<close>

type_synonym uuid = string

text \<open>Database and JavaScript timestamps: milliseconds.\<close>

type_synonym datetime = int

datatype JobStatus = running | succeeded | failed | cancelled

datatype ApplicationCodedStudyType = GRU | HMB | CC | POA | DS

record ApplicationCoded =
  countriesInvolved :: "(string \<times> string) list"
  diseasesOfStudy :: "(string \<times> string) list"
  studyAgreesToPublish :: bool
  studyIsNotCommercial :: bool
  studyType :: ApplicationCodedStudyType

record Dataset =
  dataset_id :: uuid
  uri :: string
  description :: string

record DatasetSpecimen =
  specimen_id :: uuid
  sampleType :: "string option"

record DatasetPatient =
  patient_id :: uuid
  specimens :: "DatasetSpecimen list"

text \<open>
  A case as the batch query of \<^verbatim>\<open>doSelectJobWork\<close> shapes it: its own
  properties, the dataset it belongs to (the computed link \<^verbatim>\<open>dataset\<close>), and its
  patients with their specimens.
\<close>

record DatasetCase =
  case_id :: uuid
  dataset :: Dataset
  patients :: "DatasetPatient list"

record Release =
  release_id :: uuid
  applicationCoded :: ApplicationCoded
  datasetUris :: "string list"
  release_selectedSpecimens :: "uuid list"

text \<open>
  \<^verbatim>\<open>job::SelectJob extending job::Job\<close>, the only concrete job type of the schema.
  \<open>forRelease\<close> is the id of the linked release; \<open>todoQueue\<close> holds ids of
  \<^verbatim>\<open>DatasetCase\<close> objects and \<open>selectedSpecimens\<close> ids of \<^verbatim>\<open>DatasetSpecimen\<close>
  objects.
\<close>

record SelectJob =
  job_id :: uuid
  forRelease :: uuid
  status :: JobStatus
  created :: datetime
  started :: datetime
  requestedCancellation :: bool
  percentDone :: int
  messages :: "string list"
  ended :: "datetime option"
  initialTodoCount :: int
  todoQueue :: "uuid list"
  selectedSpecimens :: "uuid list"

record Database =
  DatasetCase_objects :: "DatasetCase list"
  Release_objects :: "Release list"
  SelectJob_objects :: "SelectJob list"

subsection \<open>Errors\<close>

text \<open>
  \<open>Base7807Error\<close> carries title, status code and detail. \<open>Error\<close> is the plain
  JavaScript error with its message. \<open>CardinalityViolationError\<close>,
  \<open>DivisionByZeroError\<close>, \<open>NumericOutOfRangeError\<close> and
  \<open>ConstraintViolationError\<close> are raised by the database while it runs a query.
  \<open>SelectServiceFault\<close> is whatever the select service throws, \<open>HelperFault\<close>
  whatever the helpers of \<^verbatim>\<open>./helpers\<close> throw.
\<close>

datatype error =
    Base7807Error string nat string
  | Error string
  | CardinalityViolationError
  | DivisionByZeroError
  | NumericOutOfRangeError
  | ConstraintViolationError
  | SelectServiceFault string
  | HelperFault string

subsection \<open>Database primitives\<close>

text \<open>
  \<^verbatim>\<open>edgeDbClient.transaction(body)\<close>: the state the body returns is committed when
  the body returns; when the body throws, the transaction is rolled back, the state is the
  one before, and the error goes to the caller. There is one client at a time: the retry of
  a transaction after a conflict with a concurrent one is outside the model.
\<close>

definition transaction ::
  "(Database \<Rightarrow> error + Database \<times> 'a) \<Rightarrow> Database \<Rightarrow> Database \<times> (error + 'a)" where
  "transaction body db =
     (case body db of
        Inl err \<Rightarrow> (db, Inl err)
      | Inr (db', r) \<Rightarrow> (db', Inr r))"

text \<open>\<^verbatim>\<open>.assert_single()\<close>: at most one element, else the query fails.\<close>

fun assert_single :: "'a list \<Rightarrow> error + 'a option" where
  "assert_single [] = Inr None"
| "assert_single [x] = Inr (Some x)"
| "assert_single (x # y # zs) = Inl CardinalityViolationError"

text \<open>\<^verbatim>\<open>count\<close> of a set of objects given by their ids.\<close>

definition count :: "uuid list \<Rightarrow> int" where
  "count ids = int (card (set ids))"

text \<open>\<^verbatim>\<open>link += ids\<close> and \<^verbatim>\<open>link -= ids\<close> of an update.\<close>

definition link_add :: "uuid list \<Rightarrow> uuid list \<Rightarrow> uuid list" where
  "link_add link ids = link @ remdups [i \<leftarrow> ids. i \<notin> set link]"

definition link_remove :: "uuid list \<Rightarrow> uuid list \<Rightarrow> uuid list" where
  "link_remove link ids = [i \<leftarrow> link. i \<notin> set ids]"

text \<open>
  \<^verbatim>\<open>update job::SelectJob filter .id = jobId set { ... }\<close>: every object that passes
  the filter is rewritten.
\<close>

definition update_SelectJob ::
  "uuid \<Rightarrow> (SelectJob \<Rightarrow> SelectJob) \<Rightarrow> Database \<Rightarrow> Database" where
  "update_SelectJob jobId f db =
     db\<lparr>SelectJob_objects :=
          map (\<lambda>sj. if job_id sj = jobId then f sj else sj) (SelectJob_objects db)\<rparr>"

text \<open>\<^verbatim>\<open>select job::SelectJob filter .id = jobId\<close>, before \<^verbatim>\<open>assert_single\<close>.\<close>

definition selectJobQuery :: "uuid \<Rightarrow> Database \<Rightarrow> SelectJob list" where
  "selectJobQuery jobId db = [j \<leftarrow> SelectJob_objects db. job_id j = jobId]"

text \<open>All specimen objects of the database, through the exclusive links from cases.\<close>

definition DatasetSpecimen_objects :: "Database \<Rightarrow> DatasetSpecimen list" where
  "DatasetSpecimen_objects db =
     concat (map specimens (concat (map patients (DatasetCase_objects db))))"

subsection \<open>Starting a job\<close>

text \<open>\<^verbatim>\<open>Array.prototype.join\<close> on strings.\<close>

fun join :: "string \<Rightarrow> string list \<Rightarrow> string" where
  "join sep [] = []"
| "join sep [x] = x"
| "join sep (x # y # zs) = x @ sep @ join sep (y # zs)"

text \<open>
  \<^verbatim>\<open>startGenericJob\<close>: inside one transaction, look for running jobs of the release;
  throw when there is one, else run the final step in the same transaction.
\<close>

definition startGenericJob ::
  "uuid \<Rightarrow> (Database \<Rightarrow> error + Database) \<Rightarrow> Database \<Rightarrow> Database \<times> (error + unit)" where
  "startGenericJob releaseId finalJobStartStep =
     transaction (\<lambda>tx.
       let oldJob = [job_id j. j \<leftarrow> SelectJob_objects tx,
                       status j = running \<and> forRelease j = releaseId]
       in if length oldJob > 0
          then Inl (Base7807Error ''Only one running job is allowed per release'' 400
                 (''Job with id(s) '' @ join '' '' oldJob
                    @ '' have been found in the running state''))
          else (case finalJobStartStep tx of
                  Inl err \<Rightarrow> Inl err
                | Inr tx' \<Rightarrow> Inr (tx', ())))"

text \<open>
  Modelled from the spec: \<^verbatim>\<open>getReleaseInfo\<close> of \<^verbatim>\<open>./helpers\<close>, which is not
  among the sources. The spec's Work Catalog resolves the datasets of a release by URI and
  produces the full case set belonging to those datasets; a release id that does not
  exist is reported as not found. The result is the release (\<^verbatim>\<open>releaseQuery\<close>) and
  the ids of those cases (\<^verbatim>\<open>releaseAllDatasetCasesQuery\<close>).
\<close>

definition getReleaseInfo :: "Database \<Rightarrow> uuid \<Rightarrow> error + Release \<times> uuid list" where
  "getReleaseInfo db releaseId =
     (case [r \<leftarrow> Release_objects db. release_id r = releaseId] of
        [] \<Rightarrow> Inl (HelperFault ''release not found'')
      | r # _ \<Rightarrow>
          Inr (r, [case_id c. c \<leftarrow> DatasetCase_objects db,
                     uri (dataset c) \<in> set (datasetUris r)]))"

definition NotAuthorisedToControlJob :: "string \<Rightarrow> uuid \<Rightarrow> error" where
  "NotAuthorisedToControlJob userRole releaseId =
     Base7807Error ''Not authorised to control jobs for this release'' 403
       (''User is only a '' @ userRole @ '' in the release '' @ releaseId)"

text \<open>
  The \<^verbatim>\<open>insert job::SelectJob\<close> of \<^verbatim>\<open>startSelectJob\<close>. \<open>newId\<close> is the id the
  database gives the object and \<open>now\<close> is \<^verbatim>\<open>datetime_current()\<close>, which also is the
  default of \<^verbatim>\<open>created\<close>; \<^verbatim>\<open>requestedCancellation\<close> takes its default and
  \<^verbatim>\<open>ended\<close> stays empty. \<^verbatim>\<open>initialTodoCount\<close> is an \<^verbatim>\<open>int32\<close> property: a count
  beyond its range fails the insert.
\<close>

definition insertSelectJob ::
  "uuid \<Rightarrow> datetime \<Rightarrow> Release \<Rightarrow> uuid list \<Rightarrow> Database \<Rightarrow> error + Database" where
  "insertSelectJob newId now releaseQuery releaseAllDatasetCasesQuery tx =
     (if count releaseAllDatasetCasesQuery > 2147483647 then Inl NumericOutOfRangeError
      else Inr (tx\<lparr>SelectJob_objects := SelectJob_objects tx @
             [\<lparr>job_id = newId,
               forRelease = release_id releaseQuery,
               status = running,
               created = now,
               started = now,
               requestedCancellation = False,
               percentDone = 0,
               messages = [''Created''],
               ended = None,
               initialTodoCount = count releaseAllDatasetCasesQuery,
               todoQueue = releaseAllDatasetCasesQuery,
               selectedSpecimens = []\<rparr>]\<rparr>))"

text \<open>
  \<^verbatim>\<open>startSelectJob\<close>. \<open>roleCheck\<close> is the outcome of \<^verbatim>\<open>doRoleInReleaseCheck\<close>
  (of \<^verbatim>\<open>./helpers\<close>, not among the sources): the role of the user in the release, or
  what the helper threw. The value the method returns, the release details read again after
  the transaction, is not part of the model.
\<close>

definition startSelectJob ::
  "error + string \<Rightarrow> uuid \<Rightarrow> datetime \<Rightarrow> uuid \<Rightarrow> Database \<Rightarrow> Database \<times> (error + unit)" where
  "startSelectJob roleCheck newId now releaseId db =
     (case roleCheck of
        Inl err \<Rightarrow> (db, Inl err)
      | Inr userRole \<Rightarrow>
          if userRole \<noteq> ''DataOwner''
          then (db, Inl (NotAuthorisedToControlJob userRole releaseId))
          else (case getReleaseInfo db releaseId of
                  Inl err \<Rightarrow> (db, Inl err)
                | Inr (releaseQuery, releaseAllDatasetCasesQuery) \<Rightarrow>
                    startGenericJob releaseId
                      (insertSelectJob newId now releaseQuery releaseAllDatasetCasesQuery) db))"

subsection \<open>Working through the queue\<close>

text \<open>
  \<^verbatim>\<open>selectService.isSelectable(applicationCoded, cas, pat, spec)\<close>, the external
  predicate: it answers or it throws. Its first argument is the result of the query for
  the coded application of the job's release, an array.
\<close>

type_synonym SelectService =
  "ApplicationCoded list \<Rightarrow> DatasetCase \<Rightarrow> DatasetPatient \<Rightarrow> DatasetSpecimen \<Rightarrow> error + bool"

text \<open>
  The three nested \<^verbatim>\<open>for\<close> loops over cases, patients and specimens, pushing the id
  of every specimen judged selectable onto \<^verbatim>\<open>resultSpecimens\<close>. A throw of the
  predicate leaves all three loops.
\<close>

fun forSpecimens ::
  "SelectService \<Rightarrow> ApplicationCoded list \<Rightarrow> DatasetCase \<Rightarrow> DatasetPatient \<Rightarrow>
     DatasetSpecimen list \<Rightarrow> uuid list \<Rightarrow> error + uuid list" where
  "forSpecimens isSelectable ac cas pat [] resultSpecimens = Inr resultSpecimens"
| "forSpecimens isSelectable ac cas pat (spec # rest) resultSpecimens =
     (case isSelectable ac cas pat spec of
        Inl err \<Rightarrow> Inl err
      | Inr b \<Rightarrow>
          forSpecimens isSelectable ac cas pat rest
            (if b then resultSpecimens @ [specimen_id spec] else resultSpecimens))"

fun forPatients ::
  "SelectService \<Rightarrow> ApplicationCoded list \<Rightarrow> DatasetCase \<Rightarrow> DatasetPatient list \<Rightarrow>
     uuid list \<Rightarrow> error + uuid list" where
  "forPatients isSelectable ac cas [] resultSpecimens = Inr resultSpecimens"
| "forPatients isSelectable ac cas (pat # rest) resultSpecimens =
     (case forSpecimens isSelectable ac cas pat (specimens pat) resultSpecimens of
        Inl err \<Rightarrow> Inl err
      | Inr resultSpecimens' \<Rightarrow> forPatients isSelectable ac cas rest resultSpecimens')"

fun forCases ::
  "SelectService \<Rightarrow> ApplicationCoded list \<Rightarrow> DatasetCase list \<Rightarrow>
     uuid list \<Rightarrow> error + uuid list" where
  "forCases isSelectable ac [] resultSpecimens = Inr resultSpecimens"
| "forCases isSelectable ac (cas # rest) resultSpecimens =
     (case forPatients isSelectable ac cas (patients cas) resultSpecimens of
        Inl err \<Rightarrow> Inl err
      | Inr resultSpecimens' \<Rightarrow> forCases isSelectable ac rest resultSpecimens')"

text \<open>
  \<^verbatim>\<open>select selectJobQuery.todoQueue { ..., limit 1 }\<close>: the case objects the queue of
  the job links to, at most one of them. Which one is up to the database; the model takes
  the first in the order of the table, and no property below depends on that order.
\<close>

definition casesFromQueue :: "SelectJob option \<Rightarrow> Database \<Rightarrow> DatasetCase list" where
  "casesFromQueue sjo tx =
     take 1 [c \<leftarrow> DatasetCase_objects tx.
               case sjo of None \<Rightarrow> False | Some sj \<Rightarrow> case_id c \<in> set (todoQueue sj)]"

text \<open>
  The \<^verbatim>\<open>percentDone\<close> expression of the queue update, evaluated by the database on
  the job object as it is before the update:
  \<^verbatim>\<open><int16>math::floor(((.initialTodoCount - count(.todoQueue)) + n) * 99.99 / .initialTodoCount)\<close>
  with \<open>n\<close> the length of the batch. The database divides in \<^verbatim>\<open>float64\<close>; the model
  computes with the exact rational \<open>9999/100\<close>. A zero divisor, a value outside
  \<^verbatim>\<open>int16\<close> and a value outside the property's constraint \<open>0..100\<close> each fail the
  update.
\<close>

definition percentDoneExpr :: "SelectJob \<Rightarrow> nat \<Rightarrow> error + int" where
  "percentDoneExpr sj n =
     (if initialTodoCount sj = 0 then Inl DivisionByZeroError
      else
        let p = \<lfloor>(of_int (initialTodoCount sj - count (todoQueue sj) + int n) * (9999 / 100 :: rat))
                  / of_int (initialTodoCount sj)\<rfloor>
        in if p < - 32768 \<or> 32767 < p then Inl NumericOutOfRangeError
           else if p < 0 \<or> 100 < p then Inl ConstraintViolationError
           else Inr p)"

text \<open>An update whose \<^verbatim>\<open>set\<close> expressions can fail: one failure fails the query.\<close>

fun try_map :: "('a \<Rightarrow> error + 'a) \<Rightarrow> 'a list \<Rightarrow> error + 'a list" where
  "try_map f [] = Inr []"
| "try_map f (x # xs) =
     (case f x of
        Inl err \<Rightarrow> Inl err
      | Inr y \<Rightarrow> (case try_map f xs of Inl err \<Rightarrow> Inl err | Inr ys \<Rightarrow> Inr (y # ys)))"

definition try_update_SelectJob ::
  "uuid \<Rightarrow> (SelectJob \<Rightarrow> error + SelectJob) \<Rightarrow> Database \<Rightarrow> error + Database" where
  "try_update_SelectJob jobId f db =
     (case try_map (\<lambda>sj. if job_id sj = jobId then f sj else Inr sj) (SelectJob_objects db) of
        Inl err \<Rightarrow> Inl err
      | Inr sjs \<Rightarrow> Inr (db\<lparr>SelectJob_objects := sjs\<rparr>))"

text \<open>
  The body of the transaction inside the loop of \<^verbatim>\<open>doSelectJobWork\<close>: claim a batch,
  evaluate it, add the chosen specimens to \<^verbatim>\<open>selectedSpecimens\<close>, take the batch off
  \<^verbatim>\<open>todoQueue\<close> and set \<^verbatim>\<open>percentDone\<close>. The line that would append
  \<^verbatim>\<open>resultMessages\<close> to \<^verbatim>\<open>messages\<close> is commented out in the source, so the
  update does not touch \<^verbatim>\<open>messages\<close>. The result is the length of the batch.
\<close>

definition selectJobBatch ::
  "SelectService \<Rightarrow> ApplicationCoded list \<Rightarrow> uuid \<Rightarrow> Database \<Rightarrow> error + Database \<times> nat" where
  "selectJobBatch isSelectable ac jobId tx =
     (case assert_single (selectJobQuery jobId tx) of
        Inl err \<Rightarrow> Inl err
      | Inr sjo \<Rightarrow>
          let cases = casesFromQueue sjo tx;
              resultMessages = [''Doing some work'']
          in (case forCases isSelectable ac cases [] of
                Inl err \<Rightarrow> Inl err
              | Inr resultSpecimens \<Rightarrow>
                  let tx1 =
                        (if length resultSpecimens > 0
                         then
                           let newResults =
                                 [specimen_id ds. ds \<leftarrow> DatasetSpecimen_objects tx,
                                    specimen_id ds \<in> set resultSpecimens]
                           in update_SelectJob jobId
                                (\<lambda>sj. sj\<lparr>selectedSpecimens :=
                                            link_add (selectedSpecimens sj) newResults\<rparr>) tx
                         else tx)
                  in if length cases > 0
                     then
                       let doneCases =
                             [case_id dc. dc \<leftarrow> DatasetCase_objects tx1,
                                case_id dc \<in> set (map case_id cases)]
                       in (case try_update_SelectJob jobId
                                 (\<lambda>sj. case percentDoneExpr sj (length cases) of
                                          Inl err \<Rightarrow> Inl err
                                        | Inr p \<Rightarrow>
                                            Inr (sj\<lparr>todoQueue := link_remove (todoQueue sj) doneCases,
                                                    percentDone := p\<rparr>)) tx1 of
                             Inl err \<Rightarrow> Inl err
                           | Inr tx2 \<Rightarrow> Inr (tx2, length cases))
                     else Inr (tx1, length cases)))"

text \<open>
  \<^verbatim>\<open>differenceInSeconds(dateLeft, dateRight)\<close> of date-fns: the difference of the two
  timestamps in whole seconds, truncated towards zero.
\<close>

definition differenceInSeconds :: "datetime \<Rightarrow> datetime \<Rightarrow> int" where
  "differenceInSeconds dateLeft dateRight =
     (let diff = dateLeft - dateRight
      in if diff > 0 then diff div 1000 else - ((- diff) div 1000))"

text \<open>The number of cases still linked from the queue of the job.\<close>

definition queueSize :: "uuid \<Rightarrow> Database \<Rightarrow> nat" where
  "queueSize jobId db =
     sum_list (map (\<lambda>sj. card (set (todoQueue sj))) (selectJobQuery jobId db))"

subsection \<open>What a batch computes\<close>

text \<open>
  Two abbreviations for the statements below, unfolded from the code of the batch. The ids
  the nested loops collect when the predicate does not throw:
\<close>

definition selectableSpecimens ::
  "SelectService \<Rightarrow> ApplicationCoded list \<Rightarrow> DatasetCase list \<Rightarrow> uuid list" where
  "selectableSpecimens isSelectable ac cs =
     [specimen_id spec. cas \<leftarrow> cs, pat \<leftarrow> patients cas, spec \<leftarrow> specimens pat,
        isSelectable ac cas pat spec = Inr True]"

text \<open>
  The job object after the two updates of a batch that claimed the case \<open>c\<close>, collected
  \<open>rs\<close> and computed the percentage \<open>p\<close>.
\<close>

definition batchJob ::
  "Database \<Rightarrow> SelectJob \<Rightarrow> DatasetCase \<Rightarrow> uuid list \<Rightarrow> int \<Rightarrow> SelectJob" where
  "batchJob tx sj c rs p =
     sj\<lparr>selectedSpecimens :=
          (if rs = [] then selectedSpecimens sj
           else link_add (selectedSpecimens sj)
                  [specimen_id ds. ds \<leftarrow> DatasetSpecimen_objects tx, specimen_id ds \<in> set rs]),
        todoQueue := link_remove (todoQueue sj)
                       [case_id dc. dc \<leftarrow> DatasetCase_objects tx, case_id dc = case_id c],
        percentDone := p\<rparr>"

subsection \<open>Facts about a batch\<close>

lemma casesFromQueue_None: "casesFromQueue None tx = []"
  by (simp add: casesFromQueue_def)

lemma casesFromQueue_cases:
  "casesFromQueue sjo tx = [] \<or> (\<exists>c sj. casesFromQueue sjo tx = [c] \<and> sjo = Some sj \<and> c \<in> set (DatasetCase_objects tx) \<and> case_id c \<in> set (todoQueue sj))"
proof (cases "[c \<leftarrow> DatasetCase_objects tx.
               case sjo of None \<Rightarrow> False | Some sj \<Rightarrow> case_id c \<in> set (todoQueue sj)]")
  case Nil
  then show ?thesis by (simp add: casesFromQueue_def)
next
  case (Cons c cs)
  then have "c \<in> set [c \<leftarrow> DatasetCase_objects tx.
               case sjo of None \<Rightarrow> False | Some sj \<Rightarrow> case_id c \<in> set (todoQueue sj)]" by simp
  then have "c \<in> set (DatasetCase_objects tx)" and "case sjo of None \<Rightarrow> False | Some sj \<Rightarrow> case_id c \<in> set (todoQueue sj)"
    by auto
  with Cons show ?thesis by (auto simp: casesFromQueue_def split: option.splits)
qed

lemma forSpecimens_Inr:
  "forSpecimens sel ac cas pat specs acc = Inr rs \<Longrightarrow>
   rs = acc @ [specimen_id s. s \<leftarrow> specs, sel ac cas pat s = Inr True]"
proof (induction specs arbitrary: acc)
  case Nil
  then show ?case by simp
next
  case (Cons spec specs)
  from Cons.prems obtain b where
    b: "sel ac cas pat spec = Inr b" and
    r: "forSpecimens sel ac cas pat specs (if b then acc @ [specimen_id spec] else acc) = Inr rs"
    by (auto split: sum.splits)
  from Cons.IH[OF r] b show ?case by (cases b) simp_all
qed

lemma forPatients_Inr:
  "forPatients sel ac cas pats acc = Inr rs \<Longrightarrow>
   rs = acc @ [specimen_id s. pat \<leftarrow> pats, s \<leftarrow> specimens pat, sel ac cas pat s = Inr True]"
proof (induction pats arbitrary: acc)
  case Nil
  then show ?case by simp
next
  case (Cons pat pats)
  from Cons.prems obtain mid where
    m1: "forSpecimens sel ac cas pat (specimens pat) acc = Inr mid" and
    m2: "forPatients sel ac cas pats mid = Inr rs"
    by (auto split: sum.splits)
  from forSpecimens_Inr[OF m1] Cons.IH[OF m2] show ?case by simp
qed

lemma forCases_Inr:
  "forCases sel ac cs acc = Inr rs \<Longrightarrow> rs = acc @ selectableSpecimens sel ac cs"
proof (induction cs arbitrary: acc)
  case Nil
  then show ?case by (simp add: selectableSpecimens_def)
next
  case (Cons cas cs)
  from Cons.prems obtain mid where
    m1: "forPatients sel ac cas (patients cas) acc = Inr mid" and
    m2: "forCases sel ac cs mid = Inr rs"
    by (auto split: sum.splits)
  from forPatients_Inr[OF m1] Cons.IH[OF m2] show ?case
    by (simp add: selectableSpecimens_def)
qed

lemma selectableSpecimens_subset:
  "set cs \<subseteq> set (DatasetCase_objects tx) \<Longrightarrow>
   set (selectableSpecimens sel ac cs) \<subseteq> specimen_id ` set (DatasetSpecimen_objects tx)"
  by (fastforce simp: selectableSpecimens_def DatasetSpecimen_objects_def)

lemma try_map_filter_Nil:
  "filter P xs = [] \<Longrightarrow> try_map (\<lambda>j. if P j then f j else Inr j) xs = Inr xs"
  by (induction xs) (auto split: if_splits)

lemma map_filter_Nil:
  "filter P xs = [] \<Longrightarrow> map (\<lambda>j. if P j then g j else j) xs = xs"
  by (induction xs) (auto split: if_splits)

lemma try_map_filter_single:
  "filter P xs = [x] \<Longrightarrow>
   try_map (\<lambda>j. if P j then f j else Inr j) xs =
     (case f x of Inl e \<Rightarrow> Inl e | Inr y \<Rightarrow> Inr (map (\<lambda>j. if P j then y else j) xs))"
proof (induction xs)
  case Nil
  then show ?case by simp
next
  case (Cons a as)
  show ?case
  proof (cases "P a")
    case True
    with Cons.prems have ax: "a = x" and nil: "filter P as = []" by auto
    show ?thesis using True ax
      by (simp add: try_map_filter_Nil[OF nil] map_filter_Nil[OF nil] split: sum.splits)
  next
    case False
    with Cons.prems have "filter P as = [x]" by simp
    from Cons.IH[OF this] False show ?thesis by (simp split: sum.splits)
  qed
qed

lemma percentDoneExpr_cong:
  "initialTodoCount a = initialTodoCount b \<Longrightarrow> todoQueue a = todoQueue b \<Longrightarrow>
   percentDoneExpr a n = percentDoneExpr b n"
  by (simp add: percentDoneExpr_def)

lemma selectJobQuery_update:
  "selectJobQuery jobId tx = [sj] \<Longrightarrow> job_id (f sj) = jobId \<Longrightarrow>
   selectJobQuery jobId (update_SelectJob jobId f tx) = [f sj]"
proof -
  assume a: "selectJobQuery jobId tx = [sj]" and b: "job_id (f sj) = jobId"
  have "\<And>xs. filter (\<lambda>j. job_id j = jobId) xs = [sj] \<Longrightarrow>
         filter (\<lambda>j. job_id j = jobId) (map (\<lambda>sj. if job_id sj = jobId then f sj else sj) xs) = [f sj]"
  proof -
    fix xs show "filter (\<lambda>j. job_id j = jobId) xs = [sj] \<Longrightarrow>
         filter (\<lambda>j. job_id j = jobId) (map (\<lambda>sj. if job_id sj = jobId then f sj else sj) xs) = [f sj]"
    proof (induction xs)
      case Nil then show ?case by simp
    next
      case (Cons a as)
      show ?case
      proof (cases "job_id a = jobId")
        case True
        with Cons.prems have ax: "a = sj" and nil: "filter (\<lambda>j. job_id j = jobId) as = []" by auto
        from nil have "filter (\<lambda>j. job_id j = jobId) (map (\<lambda>sj. if job_id sj = jobId then f sj else sj) as) = []"
          by (induction as) (auto split: if_splits)
        with True ax b show ?thesis by simp
      next
        case False
        with Cons.prems have "filter (\<lambda>j. job_id j = jobId) as = [sj]" by simp
        from Cons.IH[OF this] False show ?thesis by simp
      qed
    qed
  qed
  from this[of "SelectJob_objects tx"] a show ?thesis
    by (simp add: selectJobQuery_def update_SelectJob_def)
qed

lemma DatasetCase_objects_update:
  "DatasetCase_objects (update_SelectJob jobId f tx) = DatasetCase_objects tx"
  by (simp add: update_SelectJob_def)

lemma selectJobBatch_single:
  assumes sj: "selectJobQuery jobId tx = [sj]"
  shows "selectJobBatch sel ac jobId tx =
    (case casesFromQueue (Some sj) tx of
       [] \<Rightarrow> Inr (tx, 0)
     | c # _ \<Rightarrow>
        (case forCases sel ac [c] [] of
           Inl e \<Rightarrow> Inl e
         | Inr rs \<Rightarrow>
            (case percentDoneExpr sj 1 of
               Inl e \<Rightarrow> Inl e
             | Inr p \<Rightarrow>
                 Inr (tx\<lparr>SelectJob_objects :=
                          map (\<lambda>j. if job_id j = jobId then batchJob tx sj c rs p else j)
                            (SelectJob_objects tx)\<rparr>, 1))))"
proof -
  have jid: "job_id sj = jobId"
  proof -
    have "sj \<in> set (selectJobQuery jobId tx)" using sj by simp
    then show ?thesis by (simp add: selectJobQuery_def)
  qed
  from casesFromQueue_cases[of "Some sj" tx]
  consider (empty) "casesFromQueue (Some sj) tx = []"
    | (one) c where "casesFromQueue (Some sj) tx = [c]" by auto
  then show ?thesis
  proof cases
    case empty
    then show ?thesis by (simp add: selectJobBatch_def Let_def sj)
  next
    case (one c)
    show ?thesis
    proof (cases "forCases sel ac [c] []")
      case (Inl e)
      then show ?thesis by (simp add: selectJobBatch_def Let_def sj one del: forCases.simps)
    next
      case (Inr rs)
      note fc = Inr
      define f :: "SelectJob \<Rightarrow> SelectJob" where "f = (\<lambda>sj. sj\<lparr>selectedSpecimens :=
             link_add (selectedSpecimens sj)
               [specimen_id ds. ds \<leftarrow> DatasetSpecimen_objects tx, specimen_id ds \<in> set rs]\<rparr>)"
      define tx1 where "tx1 = (if rs = [] then tx else update_SelectJob jobId f tx)"
      define sj1 where "sj1 = (if rs = [] then sj else f sj)"
      have q1: "selectJobQuery jobId tx1 = [sj1]"
        using sj jid selectJobQuery_update[OF sj, of f]
        by (simp add: tx1_def sj1_def f_def)
      have c1: "DatasetCase_objects tx1 = DatasetCase_objects tx"
        by (simp add: tx1_def update_SelectJob_def)
      have pd: "\<And>n. percentDoneExpr sj1 n = percentDoneExpr sj n"
        by (rule percentDoneExpr_cong) (simp_all add: sj1_def f_def)
      have filt: "filter (\<lambda>j. job_id j = jobId) (SelectJob_objects tx1) = [sj1]"
        using q1 by (simp add: selectJobQuery_def)
      have objs: "\<And>y. map (\<lambda>j. if job_id j = jobId then y else j) (SelectJob_objects tx1)
                  = map (\<lambda>j. if job_id j = jobId then y else j) (SelectJob_objects tx)"
        by (simp add: tx1_def update_SelectJob_def f_def)
      have rest: "\<And>y. tx1\<lparr>SelectJob_objects := y\<rparr> = tx\<lparr>SelectJob_objects := y\<rparr>"
        by (simp add: tx1_def update_SelectJob_def)
      have body: "selectJobBatch sel ac jobId tx =
          (case try_update_SelectJob jobId
                  (\<lambda>sj::SelectJob. case percentDoneExpr sj 1 of
                           Inl err \<Rightarrow> Inl err
                         | Inr p \<Rightarrow>
                             Inr (sj\<lparr>todoQueue := link_remove (todoQueue sj)
                                       [case_id dc. dc \<leftarrow> DatasetCase_objects tx, case_id dc = case_id c],
                                     percentDone := p\<rparr>)) tx1 of
             Inl err \<Rightarrow> Inl err
           | Inr tx2 \<Rightarrow> Inr (tx2, 1))"
        by (simp add: selectJobBatch_def Let_def sj one fc tx1_def f_def DatasetCase_objects_update del: forCases.simps cong: sum.case_cong)
      show ?thesis
      proof (cases "percentDoneExpr sj (Suc 0)")
        case (Inl e)
        then show ?thesis
          by (simp add: body try_update_SelectJob_def try_map_filter_single[OF filt] pd one fc
                del: forCases.simps)
      next
        case (Inr p)
        have bj: "sj1\<lparr>todoQueue := link_remove (todoQueue sj1)
                         [case_id dc. dc \<leftarrow> DatasetCase_objects tx, case_id dc = case_id c],
                     percentDone := p\<rparr> = batchJob tx sj c rs p"
          by (simp add: sj1_def f_def batchJob_def)
        show ?thesis
          by (simp add: body try_update_SelectJob_def try_map_filter_single[OF filt] pd one Inr fc
                c1 bj objs rest del: forCases.simps)
      qed
    qed
  qed
qed

lemma selectJobBatch_none:
  "selectJobQuery jobId tx = [] \<Longrightarrow> selectJobBatch sel ac jobId tx = Inr (tx, 0)"
  by (simp add: selectJobBatch_def Let_def casesFromQueue_None)

lemma selectJobBatch_many:
  "selectJobQuery jobId tx = a # b # cs \<Longrightarrow> selectJobBatch sel ac jobId tx = Inl CardinalityViolationError"
  by (simp add: selectJobBatch_def)

lemma link_remove_set: "set (link_remove link ids) = set link - set ids"
  by (auto simp: link_remove_def)

lemma link_add_set: "set (link_add link ids) = set link \<union> set ids"
  by (auto simp: link_add_def)

lemma selectJobQuery_map_single:
  assumes "selectJobQuery jobId tx = [sj]" and "job_id y = jobId"
  shows "selectJobQuery jobId
           (tx\<lparr>SelectJob_objects := map (\<lambda>j. if job_id j = jobId then y else j) (SelectJob_objects tx)\<rparr>)
         = [y]"
proof -
  have "update_SelectJob jobId (\<lambda>_. y) tx =
          tx\<lparr>SelectJob_objects := map (\<lambda>j. if job_id j = jobId then y else j) (SelectJob_objects tx)\<rparr>"
    by (simp add: update_SelectJob_def)
  with selectJobQuery_update[OF assms(1), of "\<lambda>_. y"] assms(2) show ?thesis by simp
qed

lemma selectJobQuery_job_id: "sj \<in> set (selectJobQuery jobId tx) \<Longrightarrow> job_id sj = jobId"
  by (simp add: selectJobQuery_def)

lemma batchJob_job_id: "job_id (batchJob tx sj c rs p) = job_id sj"
  by (simp add: batchJob_def)

lemma batchJob_todoQueue:
  "c \<in> set (DatasetCase_objects tx) \<Longrightarrow>
   set (todoQueue (batchJob tx sj c rs p)) = set (todoQueue sj) - {case_id c}"
  by (auto simp: batchJob_def link_remove_set)

lemma selectJobBatch_decreases:
  assumes "transaction (selectJobBatch sel ac jobId) db = (db', Inr n)" and "n \<noteq> 0"
  shows "queueSize jobId db' < queueSize jobId db"
proof -
  from assms(1) have b: "selectJobBatch sel ac jobId db = Inr (db', n)"
    by (auto simp: transaction_def split: sum.splits)
  show ?thesis
  proof (cases "selectJobQuery jobId db" rule: assert_single.cases)
    case 1
    with b assms(2) show ?thesis by (simp add: selectJobBatch_none)
  next
    case (2 sj)
    from casesFromQueue_cases[of "Some sj" db]
    consider "casesFromQueue (Some sj) db = []"
      | c where "casesFromQueue (Some sj) db = [c]" "c \<in> set (DatasetCase_objects db)"
          "case_id c \<in> set (todoQueue sj)" by auto
    then show ?thesis
    proof cases
      case 1
      with b assms(2) 2 show ?thesis by (simp add: selectJobBatch_single)
    next
      case (2 c)
      have jid: "job_id sj = jobId"
        using \<open>selectJobQuery jobId db = [sj]\<close> selectJobQuery_job_id[of sj jobId db] by simp
      from b \<open>selectJobQuery jobId db = [sj]\<close> 2(1) obtain rs p where
        db': "db' = db\<lparr>SelectJob_objects :=
                          map (\<lambda>j. if job_id j = jobId then batchJob db sj c rs p else j)
                            (SelectJob_objects db)\<rparr>"
        by (auto simp: selectJobBatch_single split: sum.splits simp del: forCases.simps)
      have q': "selectJobQuery jobId db' = [batchJob db sj c rs p]"
        unfolding db'
        by (rule selectJobQuery_map_single[OF \<open>selectJobQuery jobId db = [sj]\<close>])
           (simp add: batchJob_job_id jid)
      have "card (set (todoQueue sj) - {case_id c}) < card (set (todoQueue sj))"
        using 2(3) by (intro card_Diff1_less) simp_all
      then show ?thesis
        using q' \<open>selectJobQuery jobId db = [sj]\<close> batchJob_todoQueue[OF 2(2)]
        by (simp add: queueSize_def)
    qed
  next
    case (3 x y zs)
    with b show ?thesis by (simp add: selectJobBatch_many)
  qed
qed

subsection \<open>The loop of doSelectJobWork and the end of a job\<close>

text \<open>
  \<^verbatim>\<open>while (differenceInSeconds(startTime, new Date()) < 10) { c = transaction(...); if (c === 0) break; }\<close>
  The clock is a parameter: \<open>clock 0\<close> is the \<^verbatim>\<open>new Date()\<close> read into
  \<^verbatim>\<open>startTime\<close>, and \<open>clock (Suc i)\<close> the one read by the loop condition before
  batch \<open>i\<close>. A throw inside the transaction leaves the loop and the method with the
  state of the batches committed before. The loop ends because every batch that claims a
  case shortens the queue.
\<close>

function doSelectJobWork_loop ::
  "SelectService \<Rightarrow> (nat \<Rightarrow> datetime) \<Rightarrow> ApplicationCoded list \<Rightarrow> uuid \<Rightarrow> datetime \<Rightarrow>
     Database \<Rightarrow> nat \<Rightarrow> nat \<Rightarrow> Database \<times> (error + nat)" where
  "doSelectJobWork_loop isSelectable clock ac jobId startTime db i processedCount =
     (if differenceInSeconds startTime (clock (Suc i)) < 10
      then (case transaction (selectJobBatch isSelectable ac jobId) db of
              (db', Inl err) \<Rightarrow> (db', Inl err)
            | (db', Inr c) \<Rightarrow>
                if c = 0 then (db', Inr (processedCount + c))
                else doSelectJobWork_loop isSelectable clock ac jobId startTime db' (Suc i)
                       (processedCount + c))
      else (db, Inr processedCount))"
  by pat_completeness auto
termination
  by (relation "measure (\<lambda>(isSelectable, clock, ac, jobId, startTime, db, i, processedCount).
                  queueSize jobId db)")
     (auto intro: selectJobBatch_decreases[OF sym])

declare doSelectJobWork_loop.simps [simp del]

text \<open>
  \<^verbatim>\<open>doSelectJobWork(jobId, roughlyMaxSeconds)\<close>. The parameter
  \<^verbatim>\<open>roughlyMaxSeconds\<close> occurs nowhere in the body of the method.
\<close>

definition doSelectJobWork ::
  "SelectService \<Rightarrow> (nat \<Rightarrow> datetime) \<Rightarrow> uuid \<Rightarrow> real \<Rightarrow> Database \<Rightarrow> Database \<times> (error + nat)" where
  "doSelectJobWork isSelectable clock jobId roughlyMaxSeconds db =
     (case assert_single (selectJobQuery jobId db) of
        Inl err \<Rightarrow> (db, Inl err)
      | Inr None \<Rightarrow> (db, Inl (Error ''Job id passed in was not a Select Job''))
      | Inr (Some sj) \<Rightarrow>
          let applicationCoded =
                [applicationCoded r. r \<leftarrow> Release_objects db, release_id r = forRelease sj];
              startTime = clock 0
          in doSelectJobWork_loop isSelectable clock applicationCoded jobId startTime db 0 0)"

text \<open>
  \<^verbatim>\<open>endSelectJob(jobId, wasSuccessful, isCancellation)\<close>, one transaction. The test
  \<^verbatim>\<open>if (!selectJobQuery)\<close> is on the query object, which is never empty, so its
  throw is unreachable. The update of the release assigns the job's
  \<^verbatim>\<open>selectedSpecimens\<close> to the release's \<^verbatim>\<open>selectedSpecimens\<close>.
\<close>

definition endSelectJob ::
  "datetime \<Rightarrow> uuid \<Rightarrow> bool \<Rightarrow> bool \<Rightarrow> Database \<Rightarrow> Database \<times> (error + unit)" where
  "endSelectJob now jobId wasSuccessful isCancellation =
     transaction (\<lambda>tx.
       case assert_single (selectJobQuery jobId tx) of
         Inl err \<Rightarrow> Inl err
       | Inr sjo \<Rightarrow>
           let tx1 =
                 (if \<not> isCancellation \<and> wasSuccessful
                  then (case sjo of
                          None \<Rightarrow> tx
                        | Some sj \<Rightarrow>
                            tx\<lparr>Release_objects :=
                                 map (\<lambda>rq. if release_id rq = forRelease sj
                                            then rq\<lparr>release_selectedSpecimens := selectedSpecimens sj\<rparr>
                                            else rq)
                                   (Release_objects tx)\<rparr>)
                  else tx)
           in Inr (update_SelectJob jobId
                     (\<lambda>sj. sj\<lparr>percentDone := 100,
                              ended := Some now,
                              status := (if isCancellation then cancelled
                                         else if wasSuccessful then succeeded
                                         else failed)\<rparr>) tx1, ()))"

subsection \<open>Scenarios\<close>

text \<open>
  The scenarios of the specification's testable properties: a release drawing on one dataset
  of ten cases, each case with one patient and one specimen. Case \<open>n\<close> has the ids
  \<open>cn\<close>, \<open>pn\<close> and \<open>sn\<close>; the release has specimen \<open>s0\<close> selected by hand
  beforehand.
\<close>

definition tenF :: Dataset where
  "tenF = \<lparr>dataset_id = ''d1'', uri = ''urn:fdc:umccr.org:2022:dataset/10f'', description = ''10F''\<rparr>"

definition singletonCase :: "nat \<Rightarrow> DatasetCase" where
  "singletonCase n =
     (let d = [char_of (48 + n)]
      in \<lparr>case_id = CHR ''c'' # d, dataset = tenF,
          patients = [\<lparr>patient_id = CHR ''p'' # d,
                       specimens = [\<lparr>specimen_id = CHR ''s'' # d, sampleType = None\<rparr>]\<rparr>]\<rparr>)"

definition release1 :: Release where
  "release1 =
     \<lparr>release_id = ''r1'',
      applicationCoded = \<lparr>countriesInvolved = [(''iso'', ''AU'')], diseasesOfStudy = [],
                           studyAgreesToPublish = True, studyIsNotCommercial = True,
                           studyType = DS\<rparr>,
      datasetUris = [''urn:fdc:umccr.org:2022:dataset/10f''],
      release_selectedSpecimens = [''s0'']\<rparr>"

definition scenarioA :: Database where
  "scenarioA =
     \<lparr>DatasetCase_objects =
        map singletonCase [0 ..< 10],
      Release_objects = [release1],
      SelectJob_objects = []\<rparr>"

text \<open>The job that a data owner starts on the release at time 1000, and the database with it.\<close>

definition scenarioA_job :: SelectJob where
  "scenarioA_job =
     \<lparr>job_id = ''j1'', forRelease = ''r1'', status = running, created = 1000, started = 1000,
      requestedCancellation = False, percentDone = 0, messages = [''Created''], ended = None,
      initialTodoCount = 10,
      todoQueue = [''c0'', ''c1'', ''c2'', ''c3'', ''c4'', ''c5'', ''c6'', ''c7'', ''c8'', ''c9''],
      selectedSpecimens = []\<rparr>"

definition scenarioA_started :: Database where
  "scenarioA_started = scenarioA\<lparr>SelectJob_objects := [scenarioA_job]\<rparr>"

text \<open>
  Select services: one that accepts every specimen, one that accepts none, one that accepts
  all but a given specimen, and one that throws on a given specimen.
\<close>

definition alwaysSelectable :: SelectService where
  "alwaysSelectable ac cas pat spec = Inr True"


definition allExcept :: "uuid \<Rightarrow> SelectService" where
  "allExcept sid ac cas pat spec = Inr (specimen_id spec \<noteq> sid)"


text \<open>
  The database after \<open>k\<close> batches of the job under the service that accepts everything,
  written out; the evaluations below check single steps of it against the code.
\<close>

definition scenarioA_after :: "nat \<Rightarrow> Database" where
  "scenarioA_after k =
     scenarioA\<lparr>SelectJob_objects :=
       [scenarioA_job\<lparr>percentDone := (int k * 9999) div 1000,
                       todoQueue := drop k (todoQueue scenarioA_job),
                       selectedSpecimens :=
                         take k [''s0'', ''s1'', ''s2'', ''s3'', ''s4'', ''s5'', ''s6'', ''s7'', ''s8'', ''s9'']\<rparr>]\<rparr>"

text \<open>A clock that advances one minute between any two readings.\<close>

definition everyMinute :: "nat \<Rightarrow> datetime" where
  "everyMinute k = 60000 * int k"

text \<open>
  The database after the job has worked through the whole queue under the service that
  accepts all but \<open>s0\<close>.
\<close>

definition scenarioA_rejecting0 :: Database where
  "scenarioA_rejecting0 =
     scenarioA\<lparr>SelectJob_objects :=
       [scenarioA_job\<lparr>percentDone := 99, todoQueue := [],
                       selectedSpecimens :=
                         [''s1'', ''s2'', ''s3'', ''s4'', ''s5'', ''s6'', ''s7'', ''s8'', ''s9'']\<rparr>]\<rparr>"

subsection \<open>Facts about the operations\<close>

lemma transaction_Inr:
  "transaction body db = (db', Inr r) \<longleftrightarrow> body db = Inr (db', r)"
  by (auto simp: transaction_def split: sum.splits)

lemma transaction_Inl:
  "transaction body db = (db', Inl e) \<longleftrightarrow> body db = Inl e \<and> db' = db"
  by (auto simp: transaction_def split: sum.splits)

lemma batch_commit:
  assumes q: "selectJobQuery jobId db = [sj]"
    and t: "transaction (selectJobBatch sel ac jobId) db = (db', Inr n)"
  shows "(n = 0 \<and> db' = db \<and> casesFromQueue (Some sj) db = []) \<or>
         (\<exists>c rs p. n = 1 \<and> casesFromQueue (Some sj) db = [c] \<and>
            c \<in> set (DatasetCase_objects db) \<and> case_id c \<in> set (todoQueue sj) \<and>
            forCases sel ac [c] [] = Inr rs \<and> percentDoneExpr sj 1 = Inr p \<and>
            selectJobQuery jobId db' = [batchJob db sj c rs p] \<and>
            Release_objects db' = Release_objects db \<and>
            DatasetCase_objects db' = DatasetCase_objects db)"
proof -
  from t have b: "selectJobBatch sel ac jobId db = Inr (db', n)"
    by (simp add: transaction_Inr)
  have jid: "job_id sj = jobId"
    using q selectJobQuery_job_id[of sj jobId db] by simp
  from casesFromQueue_cases[of "Some sj" db]
  consider "casesFromQueue (Some sj) db = []"
    | c where "casesFromQueue (Some sj) db = [c]" "c \<in> set (DatasetCase_objects db)"
        "case_id c \<in> set (todoQueue sj)" by auto
  then show ?thesis
  proof cases
    case 1
    with b q show ?thesis by (simp add: selectJobBatch_single)
  next
    case (2 c)
    from b q 2(1) obtain rs p where
      rs: "forCases sel ac [c] [] = Inr rs" and p: "percentDoneExpr sj 1 = Inr p" and
      db': "db' = db\<lparr>SelectJob_objects :=
                        map (\<lambda>j. if job_id j = jobId then batchJob db sj c rs p else j)
                          (SelectJob_objects db)\<rparr>" and n: "n = 1"
      by (auto simp: selectJobBatch_single split: sum.splits simp del: forCases.simps)
    have q': "selectJobQuery jobId db' = [batchJob db sj c rs p]"
      unfolding db'
      by (rule selectJobQuery_map_single[OF q]) (simp add: batchJob_job_id jid)
    have "Release_objects db' = Release_objects db" "DatasetCase_objects db' = DatasetCase_objects db"
      by (simp_all add: db')
    with 2 rs p q' n show ?thesis by simp
  qed
qed

lemma batchJob_selectedSpecimens:
  assumes "c \<in> set (DatasetCase_objects db)" and "forCases sel ac [c] [] = Inr rs"
  shows "set (selectedSpecimens (batchJob db sj c rs p)) =
           set (selectedSpecimens sj) \<union> set (selectableSpecimens sel ac [c])"
proof -
  from forCases_Inr[OF assms(2)] have rs: "rs = selectableSpecimens sel ac [c]" by simp
  from assms(1) have "set [c] \<subseteq> set (DatasetCase_objects db)" by simp
  from selectableSpecimens_subset[OF this, of sel ac] rs
  have sub: "set rs \<subseteq> specimen_id ` set (DatasetSpecimen_objects db)" by simp
  have "set [specimen_id ds. ds \<leftarrow> DatasetSpecimen_objects db, specimen_id ds \<in> set rs] = set rs"
    using sub by auto
  then show ?thesis using rs
    by (auto simp: batchJob_def link_add_set)
qed

lemma batchJob_fields:
  "initialTodoCount (batchJob db sj c rs p) = initialTodoCount sj"
  "percentDone (batchJob db sj c rs p) = p"
  "messages (batchJob db sj c rs p) = messages sj"
  "status (batchJob db sj c rs p) = status sj"
  "forRelease (batchJob db sj c rs p) = forRelease sj"
  "rs = [] \<Longrightarrow> selectedSpecimens (batchJob db sj c rs p) = selectedSpecimens sj"
  by (simp_all add: batchJob_def)

lemma count_remove:
  "x \<in> set q \<Longrightarrow> set q' = set q - {x} \<Longrightarrow> count q' + 1 = count q"
proof -
  assume a: "x \<in> set q" and b: "set q' = set q - {x}"
  have "card (set q - {x}) = card (set q) - 1" by (simp add: a)
  moreover have "card (set q) > 0" using a by (auto simp: card_gt_0_iff)
  ultimately show ?thesis using b by (simp add: count_def)
qed








lemma endSelectJob_single:
  assumes q: "selectJobQuery jobId db = [sj]"
  shows "endSelectJob now jobId wasSuccessful isCancellation db =
    (update_SelectJob jobId
       (\<lambda>sj. sj\<lparr>percentDone := 100, ended := Some now,
                status := (if isCancellation then cancelled
                           else if wasSuccessful then succeeded else failed)\<rparr>)
       (if \<not> isCancellation \<and> wasSuccessful
        then db\<lparr>Release_objects :=
                  map (\<lambda>rq. if release_id rq = forRelease sj
                             then rq\<lparr>release_selectedSpecimens := selectedSpecimens sj\<rparr>
                             else rq)
                    (Release_objects db)\<rparr>
        else db), Inr ())"
  by (simp add: endSelectJob_def transaction_def q Let_def)

lemma selectJobQuery_Release_update:
  "selectJobQuery jobId (db\<lparr>Release_objects := rs\<rparr>) = selectJobQuery jobId db"
  by (simp add: selectJobQuery_def)

lemma Release_objects_update_SelectJob:
  "Release_objects (update_SelectJob jobId f db) = Release_objects db"
  by (simp add: update_SelectJob_def)

lemma oldJob_map:
  "[job_id j. j \<leftarrow> js, P j] = map job_id (filter P js)"
  by (induction js) simp_all

lemma getReleaseInfo_found:
  "[r \<leftarrow> Release_objects db. release_id r = releaseId] = r # rs \<Longrightarrow>
   getReleaseInfo db releaseId =
     Inr (r, [case_id c. c \<leftarrow> DatasetCase_objects db, uri (dataset c) \<in> set (datasetUris r)])"
  by (simp add: getReleaseInfo_def)

lemma differenceInSeconds_monotone:
  "startTime \<le> t \<Longrightarrow> differenceInSeconds startTime t < 10"
proof -
  assume "startTime \<le> t"
  then have "0 \<le> (t - startTime) div 1000" by simp
  with \<open>startTime \<le> t\<close> show ?thesis by (simp add: differenceInSeconds_def Let_def)
qed

lemma loop_clock_irrelevant:
  assumes c1: "\<And>k. differenceInSeconds st (clock (Suc k)) < 10"
      and c2: "\<And>k. differenceInSeconds st' (clock' (Suc k)) < 10"
  shows "doSelectJobWork_loop sel clock ac jobId st db i pc =
         doSelectJobWork_loop sel clock' ac jobId st' db i' pc"
proof (induction "queueSize jobId db" arbitrary: db i i' pc rule: less_induct)
  case less
  show ?case
  proof (cases "transaction (selectJobBatch sel ac jobId) db")
    case (Pair db' r)
    show ?thesis
    proof (cases r)
      case (Inl err)
      with Pair show ?thesis
        by (subst doSelectJobWork_loop.simps, subst (2) doSelectJobWork_loop.simps)
           (simp add: c1 c2)
    next
      case (Inr c)
      show ?thesis
      proof (cases "c = 0")
        case True
        with Pair Inr show ?thesis
          by (subst doSelectJobWork_loop.simps, subst (2) doSelectJobWork_loop.simps)
             (simp add: c1 c2)
      next
        case False
        from Pair Inr have t: "transaction (selectJobBatch sel ac jobId) db = (db', Inr c)" by simp
        from selectJobBatch_decreases[OF t False]
        have "queueSize jobId db' < queueSize jobId db" .
        from less[OF this, of "Suc i" "pc + c" "Suc i'"]
        show ?thesis
          using t False
          by (subst doSelectJobWork_loop.simps, subst (2) doSelectJobWork_loop.simps)
             (simp add: c1 c2)
      qed
    qed
  qed
qed





text \<open>Evaluations of the code on scenario A.\<close>

lemma scenarioA_job_found:
  "selectJobQuery ''j1'' scenarioA_started = [scenarioA_job]"
  by code_simp

lemma scenarioA_first_batch:
  "transaction (selectJobBatch alwaysSelectable [applicationCoded release1] ''j1'')
     scenarioA_started = (scenarioA_after 1, Inr 1)"
  by code_simp

lemma scenarioA_after_0: "scenarioA_after 0 = scenarioA_started"
  by code_simp

lemma scenarioA_batches:
  "\<forall>k \<in> set [0 ..< 10].
     transaction (selectJobBatch alwaysSelectable [applicationCoded release1] ''j1'')
       (scenarioA_after k) = (scenarioA_after (Suc k), Inr 1)"
  by code_simp

lemma scenarioA_last_batch:
  "transaction (selectJobBatch alwaysSelectable [applicationCoded release1] ''j1'')
     (scenarioA_after 10) = (scenarioA_after 10, Inr 0)"
  by code_simp

lemma scenarioA_rejecting0_run:
  "doSelectJobWork (allExcept ''s0'') everyMinute ''j1'' 1 scenarioA_started
     = (scenarioA_rejecting0, Inr 10)"
  by code_simp

section \<open>The claims\<close>

text \<open>
  C1. Every batch transaction of \<^verbatim>\<open>doSelectJobWork\<close> keeps the count identity: when
  the number of cases in \<open>todoQueue\<close> plus the number already processed is
  \<open>initialTodoCount\<close> before the transaction, then whatever the transaction's outcome,
  the state it leaves satisfies the identity again. Either it failed and left the database
  as it was, or it committed: then the claimed cases, and no others, are gone from the queue,
  the selectable specimens of exactly those cases are recorded in \<open>selectedSpecimens\<close>
  in the same commit, \<open>initialTodoCount\<close> is unchanged, and the processed count has
  grown by the number of claimed cases.
\<close>

theorem batch_commit_preserves_count:
  assumes "selectJobQuery jobId db = [sj]"
    and "count (todoQueue sj) + int processed = initialTodoCount sj"
    and "transaction (selectJobBatch isSelectable ac jobId) db = (db', r)"
  shows "(\<exists>err. r = Inl err \<and> db' = db) \<or>
         (\<exists>n sj'. r = Inr n \<and> selectJobQuery jobId db' = [sj'] \<and>
            n = length (casesFromQueue (Some sj) db) \<and>
            set (todoQueue sj') =
              set (todoQueue sj) - case_id ` set (casesFromQueue (Some sj) db) \<and>
            set (selectedSpecimens sj') =
              set (selectedSpecimens sj) \<union>
              set (selectableSpecimens isSelectable ac (casesFromQueue (Some sj) db)) \<and>
            initialTodoCount sj' = initialTodoCount sj \<and>
            count (todoQueue sj') + int (processed + n) = initialTodoCount sj')"
proof (cases r)
  case (Inl err)
  with assms(3) show ?thesis by (simp add: transaction_Inl)
next
  case (Inr n)
  with assms(3) have t: "transaction (selectJobBatch isSelectable ac jobId) db = (db', Inr n)"
    by simp
  from batch_commit[OF assms(1) t]
  have "\<exists>sj'. selectJobQuery jobId db' = [sj'] \<and>
           n = length (casesFromQueue (Some sj) db) \<and>
           set (todoQueue sj') = set (todoQueue sj) - case_id ` set (casesFromQueue (Some sj) db) \<and>
           set (selectedSpecimens sj') =
             set (selectedSpecimens sj) \<union>
             set (selectableSpecimens isSelectable ac (casesFromQueue (Some sj) db)) \<and>
           initialTodoCount sj' = initialTodoCount sj \<and>
           count (todoQueue sj') + int (processed + n) = initialTodoCount sj'"
  proof (elim disjE conjE exE)
    assume "n = 0" "db' = db" "casesFromQueue (Some sj) db = []"
    with assms(1,2) show ?thesis by (simp add: selectableSpecimens_def)
  next
    fix c rs p
    assume h: "n = 1" "casesFromQueue (Some sj) db = [c]" "c \<in> set (DatasetCase_objects db)"
      "case_id c \<in> set (todoQueue sj)" "forCases isSelectable ac [c] [] = Inr rs"
      "percentDoneExpr sj 1 = Inr p" "selectJobQuery jobId db' = [batchJob db sj c rs p]"
    have tq: "set (todoQueue (batchJob db sj c rs p)) = set (todoQueue sj) - {case_id c}"
      by (rule batchJob_todoQueue[OF h(3)])
    have cnt: "count (todoQueue (batchJob db sj c rs p)) + 1 = count (todoQueue sj)"
      by (rule count_remove[OF h(4) tq])
    show ?thesis
      using h(1,2,7) tq cnt assms(2) batchJob_selectedSpecimens[OF h(3,5), of sj p]
      by (simp add: batchJob_fields)
  qed
  with Inr show ?thesis by blast
qed

text \<open>The first batch of scenario A.\<close>

theorem batch_commit_preserves_count_scenarioA:
  "(\<exists>err. (Inr 1 :: error + nat) = Inl err \<and> scenarioA_after 1 = scenarioA_started) \<or>
   (\<exists>n sj'. (Inr 1 :: error + nat) = Inr n \<and> selectJobQuery ''j1'' (scenarioA_after 1) = [sj'] \<and>
         n = length (casesFromQueue (Some scenarioA_job) scenarioA_started) \<and>
         set (todoQueue sj') =
           set (todoQueue scenarioA_job)
             - case_id ` set (casesFromQueue (Some scenarioA_job) scenarioA_started) \<and>
         set (selectedSpecimens sj') =
           set (selectedSpecimens scenarioA_job) \<union>
           set (selectableSpecimens alwaysSelectable [applicationCoded release1]
                  (casesFromQueue (Some scenarioA_job) scenarioA_started)) \<and>
         initialTodoCount sj' = initialTodoCount scenarioA_job \<and>
         count (todoQueue sj') + int (0 + n) = initialTodoCount sj')"
proof -
  have c: "count (todoQueue scenarioA_job) + int 0 = initialTodoCount scenarioA_job"
    by code_simp
  show ?thesis
    by (rule batch_commit_preserves_count[OF scenarioA_job_found c scenarioA_first_batch])
qed

text \<open>
  C2. The claim is that a successful, uncancelled \<^verbatim>\<open>endSelectJob\<close> leaves the release
  with the union of its previous \<open>selectedSpecimens\<close> and the job's. The update assigns
  the job's set, so a specimen selected on the release before and not selected by the job is
  gone afterwards: in scenario A with the service that accepts all but \<open>s0\<close>, the
  release loses \<open>s0\<close>.
\<close>

theorem endSelectJob_drops_previous_selection:
  "Release_objects (fst (endSelectJob 2000 ''j1'' True False scenarioA_rejecting0))
     = [release1\<lparr>release_selectedSpecimens :=
          [''s1'', ''s2'', ''s3'', ''s4'', ''s5'', ''s6'', ''s7'', ''s8'', ''s9'']\<rparr>] \<and>
   set [''s1'', ''s2'', ''s3'', ''s4'', ''s5'', ''s6'', ''s7'', ''s8'', ''s9'']
     \<noteq> set (release_selectedSpecimens release1)
          \<union> set (concat (map selectedSpecimens (SelectJob_objects scenarioA_rejecting0)))"
  by code_simp

text \<open>
  C2, as the code has it: after a successful, uncancelled \<^verbatim>\<open>endSelectJob\<close> of an
  existing job, the \<open>selectedSpecimens\<close> of the job's release are exactly the job's
  accumulated \<open>selectedSpecimens\<close>; the job is \<open>succeeded\<close> with \<open>percentDone\<close>
  100 and \<open>ended\<close> set; every other release is untouched.
\<close>

theorem endSelectJob_succeeded_replaces:
  assumes "selectJobQuery jobId db = [sj]"
    and "[r \<leftarrow> Release_objects db. release_id r = forRelease sj] = [rq]"
  shows "\<exists>db' sj'. endSelectJob now jobId True False db = (db', Inr ()) \<and>
           selectJobQuery jobId db' = [sj'] \<and>
           status sj' = succeeded \<and> percentDone sj' = 100 \<and> ended sj' = Some now \<and>
           [r \<leftarrow> Release_objects db'. release_id r = forRelease sj]
             = [rq\<lparr>release_selectedSpecimens := selectedSpecimens sj\<rparr>] \<and>
           [r \<leftarrow> Release_objects db'. release_id r \<noteq> forRelease sj]
             = [r \<leftarrow> Release_objects db. release_id r \<noteq> forRelease sj]"
proof -
  have jid: "job_id sj = jobId"
    using assms selectJobQuery_job_id[of sj jobId db] by simp
  define f :: "SelectJob \<Rightarrow> SelectJob" where
    "f = (\<lambda>sj. sj\<lparr>percentDone := 100, ended := Some now, status := succeeded\<rparr>)"
  define g :: "Release \<Rightarrow> Release" where
    "g = (\<lambda>rq. if release_id rq = forRelease sj
               then rq\<lparr>release_selectedSpecimens := selectedSpecimens sj\<rparr> else rq)"
  define db1 where "db1 = db\<lparr>Release_objects := map g (Release_objects db)\<rparr>"
  have e: "endSelectJob now jobId True False db = (update_SelectJob jobId f db1, Inr ())"
    by (simp add: endSelectJob_single[OF assms(1)] f_def g_def db1_def)
  have q1: "selectJobQuery jobId db1 = [sj]"
    by (simp add: db1_def selectJobQuery_Release_update assms(1))
  have q': "selectJobQuery jobId (update_SelectJob jobId f db1) = [f sj]"
    by (rule selectJobQuery_update[OF q1]) (simp add: f_def jid)
  have gid: "\<And>r. release_id (g r) = release_id r" by (simp add: g_def)
  have r1: "\<And>rs. [r \<leftarrow> map g rs. release_id r = forRelease sj]
                = map (\<lambda>r. r\<lparr>release_selectedSpecimens := selectedSpecimens sj\<rparr>)
                    [r \<leftarrow> rs. release_id r = forRelease sj]"
  proof -
    fix rs show "[r \<leftarrow> map g rs. release_id r = forRelease sj]
                = map (\<lambda>r. r\<lparr>release_selectedSpecimens := selectedSpecimens sj\<rparr>)
                    [r \<leftarrow> rs. release_id r = forRelease sj]"
      by (induction rs) (simp_all add: g_def)
  qed
  have r2: "\<And>rs. [r \<leftarrow> map g rs. release_id r \<noteq> forRelease sj]
                = [r \<leftarrow> rs. release_id r \<noteq> forRelease sj]"
  proof -
    fix rs show "[r \<leftarrow> map g rs. release_id r \<noteq> forRelease sj]
                = [r \<leftarrow> rs. release_id r \<noteq> forRelease sj]"
      by (induction rs) (simp_all add: g_def)
  qed
  have R: "Release_objects (update_SelectJob jobId f db1) = map g (Release_objects db)"
    by (simp add: Release_objects_update_SelectJob db1_def)
  show ?thesis
    using e q' R by (simp add: f_def r1 r2 assms(2))
qed

theorem endSelectJob_succeeded_replaces_scenarioA:
  "\<exists>db' sj'. endSelectJob 2000 ''j1'' True False scenarioA_rejecting0 = (db', Inr ()) \<and>
           selectJobQuery ''j1'' db' = [sj'] \<and>
           status sj' = succeeded \<and> percentDone sj' = 100 \<and> ended sj' = Some 2000 \<and>
           [r \<leftarrow> Release_objects db'. release_id r = ''r1'']
             = [release1\<lparr>release_selectedSpecimens :=
                  [''s1'', ''s2'', ''s3'', ''s4'', ''s5'', ''s6'', ''s7'', ''s8'', ''s9'']\<rparr>] \<and>
           [r \<leftarrow> Release_objects db'. release_id r \<noteq> ''r1''] = []"
proof -
  define job where "job = scenarioA_job
      \<lparr>percentDone := 99, todoQueue := [],
       selectedSpecimens := [''s1'', ''s2'', ''s3'', ''s4'', ''s5'', ''s6'', ''s7'', ''s8'', ''s9'']\<rparr>"
  have q: "selectJobQuery ''j1'' scenarioA_rejecting0 = [job]"
    unfolding job_def by code_simp
  have r: "[r \<leftarrow> Release_objects scenarioA_rejecting0. release_id r = forRelease job] = [release1]"
    unfolding job_def by code_simp
  have r': "[r \<leftarrow> Release_objects scenarioA_rejecting0. release_id r \<noteq> forRelease job] = []"
    unfolding job_def by code_simp
  have f: "forRelease job = ''r1''"
    by (simp add: job_def scenarioA_job_def)
  from endSelectJob_succeeded_replaces[OF q r, of 2000] r' f show ?thesis
    by (simp add: job_def)
qed

text \<open>
  C3. The claim is that \<^verbatim>\<open>doSelectJobWork(jobId, roughlyMaxSeconds)\<close> stops once the
  given time budget is used up. The loop condition is
  \<^verbatim>\<open>differenceInSeconds(startTime, new Date()) < 10\<close>: it does not mention
  \<^verbatim>\<open>roughlyMaxSeconds\<close>, and its left side is never positive while the clock does not
  run backwards. So under any such clock and any budget the method does what it does when no
  time passes at all: it runs until a batch fails or claims nothing. In scenario A with a
  budget of one second and a minute between clock readings it works through all ten cases.
\<close>

theorem doSelectJobWork_ignores_budget:
  assumes "\<And>k. clock 0 \<le> clock k"
  shows "doSelectJobWork isSelectable clock jobId roughlyMaxSeconds db =
         doSelectJobWork isSelectable (\<lambda>k. 0) jobId 0 db"
proof -
  have c1: "\<And>k. differenceInSeconds (clock 0) (clock (Suc k)) < 10"
    by (rule differenceInSeconds_monotone) (rule assms)
  have c2: "\<And>k. differenceInSeconds 0 ((\<lambda>k. 0) (Suc k)) < 10"
    by (simp add: differenceInSeconds_def)
  show ?thesis
    unfolding doSelectJobWork_def Let_def
    by (simp add: loop_clock_irrelevant[where clock=clock and clock'="\<lambda>k. 0" and st="clock 0"
                    and st'=0 and i'=0, OF c1 c2]
          cong: sum.case_cong option.case_cong)
qed

theorem doSelectJobWork_ignores_budget_scenarioA:
  "doSelectJobWork alwaysSelectable everyMinute ''j1'' 1 scenarioA_started =
     doSelectJobWork alwaysSelectable (\<lambda>k. 0) ''j1'' 0 scenarioA_started \<and>
   doSelectJobWork alwaysSelectable everyMinute ''j1'' 1 scenarioA_started
     = (scenarioA_after 10, Inr 10)"
proof -
  have m: "\<And>k. everyMinute 0 \<le> everyMinute k"
    by (simp add: everyMinute_def)
  have e: "doSelectJobWork alwaysSelectable everyMinute ''j1'' 1 scenarioA_started
             = (scenarioA_after 10, Inr 10)"
    by code_simp
  from doSelectJobWork_ignores_budget[of everyMinute alwaysSelectable "''j1''" 1 scenarioA_started, OF m] e
  show ?thesis by simp
qed



text \<open>
  C5. When a data owner starts a select job for an existing release that has a running job,
  \<^verbatim>\<open>startSelectJob\<close> fails with the \<open>Base7807Error\<close> "Only one running job is
  allowed per release", whose detail lists the ids of the running jobs, and the database,
  and with it every field of the running job, is as before.
\<close>

theorem startSelectJob_conflict:
  assumes "[r \<leftarrow> Release_objects db. release_id r = releaseId] = r # rs"
    and "[j \<leftarrow> SelectJob_objects db. status j = running \<and> forRelease j = releaseId] = j # js"
  shows "startSelectJob (Inr ''DataOwner'') newId now releaseId db =
           (db, Inl (Base7807Error ''Only one running job is allowed per release'' 400
                  (''Job with id(s) '' @ join '' '' (map job_id (j # js))
                     @ '' have been found in the running state'')))"
  using assms(2)
  by (simp add: startSelectJob_def getReleaseInfo_found[OF assms(1)] startGenericJob_def
        transaction_def oldJob_map Let_def del: join.simps)

theorem startSelectJob_conflict_scenarioA:
  "startSelectJob (Inr ''DataOwner'') ''j2'' 2000 ''r1'' scenarioA_started =
     (scenarioA_started,
      Inl (Base7807Error ''Only one running job is allowed per release'' 400
             ''Job with id(s) j1 have been found in the running state''))"
proof -
  have r: "[r \<leftarrow> Release_objects scenarioA_started. release_id r = ''r1''] = release1 # []"
    by code_simp
  have j: "[j \<leftarrow> SelectJob_objects scenarioA_started. status j = running \<and> forRelease j = ''r1'']
            = scenarioA_job # []"
    by code_simp
  from startSelectJob_conflict[OF r j, of "''j2''" 2000] show ?thesis
    by (simp add: scenarioA_job_def)
qed

text \<open>
  C6. When a data owner starts a select job for an existing release that has no running job
  (and the number of its cases fits \<^verbatim>\<open>int32\<close>), \<^verbatim>\<open>startSelectJob\<close> adds exactly one
  job to the database: running, started now, \<open>percentDone\<close> 0, \<open>messages\<close>
  \<open>["Created"]\<close>, \<open>initialTodoCount\<close> the number of cases of the release's datasets,
  \<open>todoQueue\<close> those cases, and \<open>selectedSpecimens\<close> empty.
\<close>

theorem startSelectJob_creates:
  assumes "[r \<leftarrow> Release_objects db. release_id r = releaseId] = r # rs"
    and "[j \<leftarrow> SelectJob_objects db. status j = running \<and> forRelease j = releaseId] = []"
    and "allCases = [case_id c. c \<leftarrow> DatasetCase_objects db, uri (dataset c) \<in> set (datasetUris r)]"
    and "count allCases \<le> 2147483647"
  shows "startSelectJob (Inr ''DataOwner'') newId now releaseId db =
           (db\<lparr>SelectJob_objects := SelectJob_objects db @
                 [\<lparr>job_id = newId, forRelease = releaseId, status = running,
                   created = now, started = now, requestedCancellation = False,
                   percentDone = 0, messages = [''Created''], ended = None,
                   initialTodoCount = int (card (set allCases)),
                   todoQueue = allCases, selectedSpecimens = []\<rparr>]\<rparr>,
            Inr ())"
proof -
  have "r \<in> set [r \<leftarrow> Release_objects db. release_id r = releaseId]"
    using assms(1) by simp
  then have rid: "release_id r = releaseId" by simp
  show ?thesis
    using assms(2,4) rid
    by (simp add: startSelectJob_def getReleaseInfo_found[OF assms(1)] startGenericJob_def
          transaction_def oldJob_map Let_def insertSelectJob_def assms(3)[symmetric] count_def)
qed

theorem startSelectJob_creates_scenarioA:
  "startSelectJob (Inr ''DataOwner'') ''j1'' 1000 ''r1'' scenarioA = (scenarioA_started, Inr ())"
proof -
  have r: "[r \<leftarrow> Release_objects scenarioA. release_id r = ''r1''] = release1 # []"
    by code_simp
  have j: "[j \<leftarrow> SelectJob_objects scenarioA. status j = running \<and> forRelease j = ''r1''] = []"
    by code_simp
  have a: "[''c0'', ''c1'', ''c2'', ''c3'', ''c4'', ''c5'', ''c6'', ''c7'', ''c8'', ''c9''] =
           [case_id c. c \<leftarrow> DatasetCase_objects scenarioA,
              uri (dataset c) \<in> set (datasetUris release1)]"
    by code_simp
  have n: "count [''c0'', ''c1'', ''c2'', ''c3'', ''c4'', ''c5'', ''c6'', ''c7'', ''c8'', ''c9'']
             \<le> 2147483647"
    by code_simp
  have k: "int (card (set [''c0'', ''c1'', ''c2'', ''c3'', ''c4'', ''c5'', ''c6'', ''c7'', ''c8'', ''c9''])) = 10"
    by code_simp
  have e: "SelectJob_objects scenarioA = []"
    by (simp add: scenarioA_def)
  from startSelectJob_creates[OF r j a n, of "''j1''" 1000] k e show ?thesis
    by (simp add: scenarioA_started_def scenarioA_job_def)
qed

text \<open>
  C7. The claim is that every committed batch appends its progress messages to
  \<open>messages\<close>. The batch builds \<^verbatim>\<open>resultMessages\<close>, and the comment in the queue
  update says "append any new messages for the UI", but the assignment to
  \<^verbatim>\<open>messages\<close> is commented out: every committed batch leaves \<open>messages\<close> as it
  was. After the first batch of scenario A it still is \<open>["Created"]\<close>.
\<close>

theorem batch_commit_messages_unchanged:
  assumes "selectJobQuery jobId db = [sj]"
    and "transaction (selectJobBatch isSelectable ac jobId) db = (db', Inr n)"
  shows "\<exists>sj'. selectJobQuery jobId db' = [sj'] \<and> messages sj' = messages sj"
  using batch_commit[OF assms] assms(1) by (auto simp: batchJob_fields)

theorem batch_commit_messages_unchanged_scenarioA:
  "\<exists>sj'. selectJobQuery ''j1'' (scenarioA_after 1) = [sj'] \<and> messages sj' = [''Created'']"
  using batch_commit_messages_unchanged[OF scenarioA_job_found scenarioA_first_batch]
  by (simp add: scenarioA_job_def)

text \<open>
  C8. \<^verbatim>\<open>endSelectJob\<close> with \<^verbatim>\<open>isCancellation\<close> true, on an existing job,
  whatever \<^verbatim>\<open>wasSuccessful\<close> is: the job becomes \<open>cancelled\<close> with \<open>percentDone\<close>
  100 and \<open>ended\<close> set, it keeps its accumulated \<open>selectedSpecimens\<close> (and its queue),
  and no release changes.
\<close>

theorem endSelectJob_cancelled:
  assumes "selectJobQuery jobId db = [sj]"
  shows "\<exists>db' sj'. endSelectJob now jobId wasSuccessful True db = (db', Inr ()) \<and>
           selectJobQuery jobId db' = [sj'] \<and>
           status sj' = cancelled \<and> percentDone sj' = 100 \<and> ended sj' = Some now \<and>
           selectedSpecimens sj' = selectedSpecimens sj \<and>
           todoQueue sj' = todoQueue sj \<and>
           Release_objects db' = Release_objects db"
proof -
  have jid: "job_id sj = jobId"
    using assms selectJobQuery_job_id[of sj jobId db] by simp
  define f :: "SelectJob \<Rightarrow> SelectJob" where
    "f = (\<lambda>sj. sj\<lparr>percentDone := 100, ended := Some now, status := cancelled\<rparr>)"
  have e: "endSelectJob now jobId wasSuccessful True db = (update_SelectJob jobId f db, Inr ())"
    by (simp add: endSelectJob_single[OF assms] f_def)
  have q': "selectJobQuery jobId (update_SelectJob jobId f db) = [f sj]"
    by (rule selectJobQuery_update[OF assms]) (simp add: f_def jid)
  show ?thesis
    using e q' by (simp add: f_def Release_objects_update_SelectJob)
qed

text \<open>Scenario B: cancellation after three batches.\<close>

theorem endSelectJob_cancelled_scenarioB:
  "\<exists>db' sj'. endSelectJob 2000 ''j1'' False True (scenarioA_after 3) = (db', Inr ()) \<and>
           selectJobQuery ''j1'' db' = [sj'] \<and>
           status sj' = cancelled \<and> percentDone sj' = 100 \<and> ended sj' = Some 2000 \<and>
           selectedSpecimens sj' = [''s0'', ''s1'', ''s2''] \<and>
           todoQueue sj' = [''c3'', ''c4'', ''c5'', ''c6'', ''c7'', ''c8'', ''c9''] \<and>
           Release_objects db' = [release1]"
proof -
  define job3 where "job3 = scenarioA_job
      \<lparr>percentDone := 29, todoQueue := [''c3'', ''c4'', ''c5'', ''c6'', ''c7'', ''c8'', ''c9''],
       selectedSpecimens := [''s0'', ''s1'', ''s2'']\<rparr>"
  have q: "selectJobQuery ''j1'' (scenarioA_after 3) = [job3]"
    unfolding job3_def by code_simp
  have r: "Release_objects (scenarioA_after 3) = [release1]"
    by code_simp
  from endSelectJob_cancelled[OF q, of 2000 False] r show ?thesis
    by (simp add: job3_def)
qed





end
